theory Spec2Isabelle
  imports Main
begin

section \<open>The transaction table\<close>

text \<open>
  The entity \<open>UserTransaction\<close> and its enums are imported by the sources from
  \<open>entity/user/UserTransaction\<close>; the fields below are the ones the webhook handlers
  read and write. A field of an entity object may be \<open>undefined\<close> in memory, which is
  \<open>None\<close> here for the status. The column \<open>request\<close> is always the empty object and
  is left out.
\<close>

datatype UserTransactionStatus = Success | Created | Processing | ErrorRecoverable | Error

datatype UserTransactionProcessor = Njord | Paddle | AppleStoreKit

type_synonym timestamp = int

record UserTransactionFlags =
  providerId :: "string option"
  error :: "string option"

record UserTransaction =
  txId :: string
  processor :: UserTransactionProcessor
  receiverId :: string
  senderId :: "string option"
  productId :: "string option"
  status :: "UserTransactionStatus option"
  txValue :: int
  fee :: int
  flags :: UserTransactionFlags
  createdAt :: timestamp
  updatedAt :: timestamp

text \<open>
  The numeric code of each status belongs to the enum declaration. The handlers use a
  status as a condition (\<open>transaction.status || nextStatus\<close>, \<open>!nextStatus\<close>), which
  is false exactly for \<open>undefined\<close> and for the code \<open>0\<close>; the coding is a parameter
  \<open>code\<close> of every function that does so.
\<close>

definition truthyStatus ::
  "(UserTransactionStatus \<Rightarrow> int) \<Rightarrow> UserTransactionStatus option \<Rightarrow> bool" where
  "truthyStatus code st = (case st of None \<Rightarrow> False | Some x \<Rightarrow> code x \<noteq> 0)"

section \<open>Provider events\<close>

datatype EventName =
    TransactionCreated
  | TransactionReady
  | TransactionPaymentFailed
  | TransactionUpdated
  | TransactionCompleted
  | SubscriptionCreated
  | SubscriptionCanceled
  | SubscriptionUpdated
  | UnknownEvent

text \<open>
  \<open>PaddleTransactionData\<close> is what \<open>getPaddleTransactionData\<close> returns for an event:
  \<open>id\<close>, \<open>updatedAt\<close>, \<open>customData.user_id\<close> and
  \<open>items[0].price.customData.cores\<close>.
\<close>

record PaddleTransactionData =
  dataId :: string
  dataUpdatedAt :: timestamp
  customUserId :: string
  itemCores :: int

text \<open>
  An unmarshalled event: its type tag, the answer of \<open>isCoreTransaction\<close>, the
  transaction data, \<open>event.data.status\<close> and \<open>event.data.payments[0]?.errorCode\<close>.
\<close>

record PaddleEvent =
  eventType :: EventName
  coreTransaction :: bool
  transactionData :: PaddleTransactionData
  dataStatus :: string
  paymentErrorCode :: "string option"

text \<open>
  One delivery of an event to the webhook: the event, the database clock when it is
  handled (the timestamps of an inserted row and the stamp of an update), and whether
  the ledger accepts the purchase made during this delivery.
\<close>

record delivery =
  event :: PaddleEvent
  clock :: timestamp
  purchaseOk :: bool

section \<open>State and failures\<close>

text \<open>
  The state the handlers act on: the rows of the transaction table, the arguments of the
  calls of \<open>purchaseCores\<close> made so far, and the messages logged. A database
  transaction that fails restores the rows; a call made and a message logged stay.
\<close>

record webhook_state =
  rows :: "UserTransaction list"
  purchases :: "UserTransaction list"
  logs :: "string list"

datatype failure =
    ReceiverMismatch
  | ValueChanged
  | AlreadyExists
  | NotFound
  | LedgerFailure

type_synonym 'a io = "webhook_state \<Rightarrow> (failure + 'a) \<times> webhook_state"

definition logMessage :: "string \<Rightarrow> webhook_state \<Rightarrow> webhook_state" where
  "logMessage m s = s\<lparr>logs := logs s @ [m]\<rparr>"

section \<open>The repository\<close>

text \<open>
  Modelled from the spec: \<open>getTransactionForProviderId\<close> is imported from
  \<open>common/paddle\<close>, which is not among the sources. It is the query "find by
  processor + embedded provider id" over the transaction table.
\<close>

definition getTransactionForProviderId ::
  "UserTransaction list \<Rightarrow> string \<Rightarrow> UserTransaction option" where
  "getTransactionForProviderId rs pid =
     find (\<lambda>t. processor t = Paddle \<and> providerId (flags t) = Some pid) rs"

text \<open>
  \<open>repository.update({ id }, columns)\<close> rewrites the listed columns of every row with
  that id. A column whose new value is \<open>undefined\<close> is not written. The column
  \<open>updatedAt\<close> is the update date column of the entity (\<open>@UpdateDateColumn\<close>, as on
  the entity under \<open>src/entity\<close>): the handlers never pass it, and every update stamps
  it with the database clock.
\<close>

definition repoUpdate ::
  "timestamp \<Rightarrow> string \<Rightarrow> (UserTransaction \<Rightarrow> UserTransaction) \<Rightarrow>
   UserTransaction list \<Rightarrow> UserTransaction list" where
  "repoUpdate now i f rs = map (\<lambda>r. if txId r = i then (f r)\<lparr>updatedAt := now\<rparr> else r) rs"

text \<open>
  \<open>repository.save\<close> of a payload without id inserts a row under an id the database
  generates. The generated id is new to the table: here a string longer than every id in
  use.
\<close>

definition freshId :: "UserTransaction list \<Rightarrow> string" where
  "freshId rs = replicate (Suc (foldr max (map (\<lambda>r. length (txId r)) rs) 0)) CHR ''0''"

section \<open>The webhook handlers\<close>

definition checkTransactionStatusValid ::
  "UserTransaction \<Rightarrow> UserTransactionStatus list \<Rightarrow> webhook_state \<Rightarrow> bool \<times> webhook_state"
  where
  "checkTransactionStatusValid transaction validStatus s =
     (if status transaction \<notin> set (map Some validStatus)
      then (False, logMessage ''Transaction with invalid status'' s)
      else (True, s))"

definition updateUserTransaction ::
  "(UserTransactionStatus \<Rightarrow> int) \<Rightarrow> timestamp \<Rightarrow> UserTransaction option \<Rightarrow>
   UserTransactionStatus option \<Rightarrow> PaddleTransactionData \<Rightarrow> UserTransaction io" where
  "updateUserTransaction code now transaction nextStatus data s =
     (case transaction of
        Some t \<Rightarrow>
          if receiverId t \<noteq> customUserId data then (Inl ReceiverMismatch, s)
          else if status t = Some Success \<and> txValue t \<noteq> itemCores data
          then (Inl ValueChanged, s)
          else
            (Inr (t\<lparr>txValue := itemCores data,
                    status := (if truthyStatus code (status t) then status t else nextStatus)\<rparr>),
             s\<lparr>rows :=
                 repoUpdate now (txId t)
                   (\<lambda>r. r\<lparr>txValue := itemCores data,
                          status := (case nextStatus of None \<Rightarrow> status r | Some n \<Rightarrow> Some n)\<rparr>)
                   (rows s)\<rparr>)
      | None \<Rightarrow>
          (let newTransaction =
                 \<lparr>txId = freshId (rows s), processor = Paddle,
                  receiverId = customUserId data, senderId = None, productId = None,
                  status = nextStatus, txValue = itemCores data, fee = 0,
                  flags = \<lparr>providerId = Some (dataId data), error = None\<rparr>,
                  createdAt = now, updatedAt = now\<rparr>
           in (Inr newTransaction, s\<lparr>rows := rows s @ [newTransaction]\<rparr>)))"

text \<open>
  Modelled from the spec: \<open>purchaseCores\<close> is imported from \<open>common/njord\<close> and is not
  among the sources. It is the ledger transfer for a purchase: the call is made with the
  transaction (whose id is the idempotency key) and either succeeds or fails loudly.
\<close>

definition purchaseCores :: "bool \<Rightarrow> UserTransaction \<Rightarrow> unit io" where
  "purchaseCores ok transaction s =
     ((if ok then Inr () else Inl LedgerFailure),
      s\<lparr>purchases := purchases s @ [transaction]\<rparr>)"

text \<open>\<open>con.transaction(body)\<close>: when the body throws, the writes to the table are undone.\<close>

definition conTransaction :: "'a io \<Rightarrow> 'a io" where
  "conTransaction body s =
     (case body s of
        (Inl e, s') \<Rightarrow> (Inl e, s'\<lparr>rows := rows s\<rparr>)
      | (Inr x, s') \<Rightarrow> (Inr x, s'))"

text \<open>
  Each handler acts on the transaction table only for an event that
  \<open>isCoreTransaction\<close> accepts. The other branch of \<open>processTransactionCompleted\<close>
  (gifted subscriptions) writes to the user table, and the notifications sent after the
  commit do not write at all; neither is part of this state.
\<close>

definition processTransactionCompleted ::
  "(UserTransactionStatus \<Rightarrow> int) \<Rightarrow> delivery \<Rightarrow> unit io" where
  "processTransactionCompleted code d s =
     (if coreTransaction (event d) then
        (let transactionData = transactionData (event d);
             transaction = getTransactionForProviderId (rows s) (dataId transactionData)
         in conTransaction
              (\<lambda>s1. case updateUserTransaction code (clock d) transaction (Some Success)
                            transactionData s1 of
                       (Inl e, s2) \<Rightarrow> (Inl e, s2)
                     | (Inr userTransaction, s2) \<Rightarrow>
                         purchaseCores (purchaseOk d) userTransaction s2)
              s)
      else (Inr (), s))"

definition processTransactionCreated ::
  "(UserTransactionStatus \<Rightarrow> int) \<Rightarrow> delivery \<Rightarrow> unit io" where
  "processTransactionCreated code d s =
     (if coreTransaction (event d) then
        (let transactionData = transactionData (event d);
             transaction = getTransactionForProviderId (rows s) (dataId transactionData)
         in if transaction \<noteq> None then (Inl AlreadyExists, s)
            else (case updateUserTransaction code (clock d) transaction (Some Created)
                         transactionData s of
                    (Inl e, s') \<Rightarrow> (Inl e, s')
                  | (Inr _, s') \<Rightarrow> (Inr (), s')))
      else (Inr (), s))"

definition processTransactionReady ::
  "(UserTransactionStatus \<Rightarrow> int) \<Rightarrow> delivery \<Rightarrow> unit io" where
  "processTransactionReady code d s =
     (if coreTransaction (event d) then
        (let transactionData = transactionData (event d);
             transaction = getTransactionForProviderId (rows s) (dataId transactionData);
             nextStatus = Processing;
             (valid, s1) =
               (case transaction of
                  None \<Rightarrow> (True, s)
                | Some t \<Rightarrow> checkTransactionStatusValid t [Created] s)
         in if \<not> valid then (Inr (), s1)
            else (case updateUserTransaction code (clock d) transaction (Some nextStatus)
                         transactionData s1 of
                    (Inl e, s') \<Rightarrow> (Inl e, s')
                  | (Inr _, s') \<Rightarrow> (Inr (), s')))
      else (Inr (), s))"

definition paymentFailedMessage :: "string option \<Rightarrow> string" where
  "paymentFailedMessage errorCode =
     ''Payment failed: '' @
       (case errorCode of
          None \<Rightarrow> ''unknown''
        | Some c \<Rightarrow> if c = [] then ''unknown'' else c)"

definition processTransactionPaymentFailed :: "delivery \<Rightarrow> unit io" where
  "processTransactionPaymentFailed d s =
     (if coreTransaction (event d) then
        (let transactionData = transactionData (event d)
         in case getTransactionForProviderId (rows s) (dataId transactionData) of
              None \<Rightarrow> (Inl NotFound, s)
            | Some transaction \<Rightarrow>
                (let paymentErrorCode = paymentErrorCode (event d);
                     nextStatus =
                       (if paymentErrorCode = Some ''declined'' then ErrorRecoverable else Error);
                     (valid, s1) =
                       checkTransactionStatusValid transaction [Created, Processing] s
                 in if \<not> valid then (Inr (), s1)
                    else
                      (Inr (),
                       s1\<lparr>rows :=
                            repoUpdate (clock d) (txId transaction)
                              (\<lambda>r. r\<lparr>status := Some nextStatus,
                                     flags := (flags r)
                                       \<lparr>error := Some (paymentFailedMessage paymentErrorCode)\<rparr>\<rparr>)
                              (rows s1)\<rparr>)))
      else (Inr (), s))"

definition getUpdatedStatus ::
  "UserTransaction option \<Rightarrow> string \<Rightarrow> UserTransactionStatus option" where
  "getUpdatedStatus transaction st =
     (case transaction of
        Some t \<Rightarrow> status t
      | None \<Rightarrow>
          if st = ''draft'' then Some Created
          else if st = ''ready'' then Some Processing
          else None)"

definition processTransactionUpdated ::
  "(UserTransactionStatus \<Rightarrow> int) \<Rightarrow> delivery \<Rightarrow> unit io" where
  "processTransactionUpdated code d s =
     (if coreTransaction (event d) then
        (let transactionData = transactionData (event d);
             transaction = getTransactionForProviderId (rows s) (dataId transactionData)
         in if (case transaction of
                  None \<Rightarrow> False
                | Some t \<Rightarrow> updatedAt t > dataUpdatedAt transactionData)
            then (Inr (), logMessage ''Transaction already updated'' s)
            else
              (let nextStatus = getUpdatedStatus transaction (dataStatus (event d))
               in if \<not> truthyStatus code nextStatus
                  then (Inr (), logMessage ''Transaction update skipped'' s)
                  else (case updateUserTransaction code (clock d) transaction
                               (if transaction \<noteq> None then None else nextStatus)
                               transactionData s of
                          (Inl e, s') \<Rightarrow> (Inl e, s')
                        | (Inr _, s') \<Rightarrow> (Inr (), s'))))
      else (Inr (), s))"

text \<open>
  The route handler, from the unmarshalled event on. Whatever a handler throws is caught,
  logged and swallowed. The subscription events act on the user table only, and an
  unrecognised event is logged.
\<close>

definition paddle :: "(UserTransactionStatus \<Rightarrow> int) \<Rightarrow> delivery \<Rightarrow> webhook_state \<Rightarrow> webhook_state"
  where
  "paddle code d s =
     (let (r, s') =
            (case eventType (event d) of
               TransactionCreated \<Rightarrow> processTransactionCreated code d s
             | TransactionReady \<Rightarrow> processTransactionReady code d s
             | TransactionPaymentFailed \<Rightarrow> processTransactionPaymentFailed d s
             | TransactionUpdated \<Rightarrow> processTransactionUpdated code d s
             | TransactionCompleted \<Rightarrow> processTransactionCompleted code d s
             | SubscriptionCreated \<Rightarrow> (Inr (), s)
             | SubscriptionCanceled \<Rightarrow> (Inr (), s)
             | SubscriptionUpdated \<Rightarrow> (Inr (), s)
             | UnknownEvent \<Rightarrow> (Inr (), logMessage ''unknown event'' s))
      in case r of
           Inl e \<Rightarrow> logMessage ''Paddle generic error'' s'
         | Inr _ \<Rightarrow> s')"



section \<open>Comparing tables\<close>

text \<open>
  A row without its update stamp, and a row without its value and its update stamp: two
  tables agree up to these columns when they agree row by row after the columns have
  been blanked.
\<close>

definition unstamped :: "UserTransaction \<Rightarrow> UserTransaction" where
  "unstamped t = t\<lparr>updatedAt := 0\<rparr>"


section \<open>The ledger client\<close>

text \<open>
  Failures of the ledger client: the breaker's \<open>BrokenCircuitError\<close>, the
  \<open>ForbiddenError\<close> of the guards, the ledger's answer that the account does not exist,
  any other error of the ledger, and a plain \<open>Error\<close> with its message.
\<close>

datatype njord_failure =
    BrokenCircuitError
  | ForbiddenError string
  | BalanceAccountNotFound
  | LedgerError string
  | PlainError string

record AuthContext =
  userId :: "string option"
  isTeamMember :: bool

record TransferRequest =
  idempotencyKey :: string
  sender :: string
  receiver :: string
  amount :: int

record BalanceChange =
  accountUserId :: "string option"
  newBalance :: int

record TransferResponse =
  senderBalance :: BalanceChange
  receiverBalance :: BalanceChange

text \<open>
  What the client runs against: whether the breaker is open, the \<open>isProd\<close> flag, and
  the answers of the ledger to \<open>getBalance\<close> and \<open>transfer\<close>.
\<close>

record njord_env =
  circuitOpen :: bool
  isProd :: bool
  njordGetBalance :: "string \<Rightarrow> njord_failure + int"
  njordTransfer :: "TransferRequest \<Rightarrow> njord_failure + TransferResponse"

text \<open>
  The state: the balance cache (the amount stored under a key) and the transfer requests
  that reached the ledger.
\<close>

record njord_state =
  redis :: "string \<rightharpoonup> int"
  transfers :: "TransferRequest list"

type_synonym 'a nio = "njord_state \<Rightarrow> (njord_failure + 'a) \<times> njord_state"

definition truthyString :: "string option \<Rightarrow> bool" where
  "truthyString x = (case x of None \<Rightarrow> False | Some v \<Rightarrow> v \<noteq> [])"

definition stringOf :: "string option \<Rightarrow> string" where
  "stringOf x = (case x of None \<Rightarrow> [] | Some v \<Rightarrow> v)"

definition andThen :: "'a nio \<Rightarrow> ('a \<Rightarrow> 'b nio) \<Rightarrow> 'b nio" where
  "andThen m f s = (case m s of (Inl e, s') \<Rightarrow> (Inl e, s') | (Inr x, s') \<Rightarrow> f x s')"

definition createAuthProtectedFn :: "(AuthContext \<Rightarrow> 'a nio) \<Rightarrow> AuthContext \<Rightarrow> 'a nio" where
  "createAuthProtectedFn fn ctx s =
     (if \<not> truthyString (userId ctx) then (Inl (ForbiddenError ''Auth is required''), s)
      else fn ctx s)"

text \<open>
  Modelled from the spec: \<open>GarmrService\<close> (\<open>integrations/garmr\<close>) is not among the
  sources. Its \<open>execute\<close> wraps a call in the circuit breaker: while the breaker is open
  the call is short-circuited and fails with \<open>BrokenCircuitError\<close>; otherwise the call
  runs and its result or failure is passed on.
\<close>

definition execute :: "njord_env \<Rightarrow> 'a nio \<Rightarrow> 'a nio" where
  "execute env body s = (if circuitOpen env then (Inl BrokenCircuitError, s) else body s)"

text \<open>
  Modelled from the spec: \<open>generateStorageKey\<close> is not among the sources; the cache
  entries are \<open>balance:{userId}\<close>.
\<close>

definition getBalanceRedisKey :: "AuthContext \<Rightarrow> string nio" where
  "getBalanceRedisKey =
     createAuthProtectedFn (\<lambda>ctx s. (Inr (''balance:'' @ stringOf (userId ctx)), s))"

definition getFreshBalance :: "njord_env \<Rightarrow> AuthContext \<Rightarrow> int nio" where
  "getFreshBalance env =
     createAuthProtectedFn
       (\<lambda>ctx.
          execute env
            (\<lambda>s. case njordGetBalance env (stringOf (userId ctx)) of
                    Inr balance \<Rightarrow> (Inr balance, s)
                  | Inl e \<Rightarrow> if e = BalanceAccountNotFound then (Inr 0, s) else (Inl e, s)))"

definition updateBalanceCache :: "int \<Rightarrow> AuthContext \<Rightarrow> unit nio" where
  "updateBalanceCache v =
     createAuthProtectedFn
       (\<lambda>ctx.
          andThen (getBalanceRedisKey ctx)
            (\<lambda>redisKey s. (Inr (), s\<lparr>redis := (redis s)(redisKey \<mapsto> v)\<rparr>)))"

definition expireBalanceCache :: "AuthContext \<Rightarrow> unit nio" where
  "expireBalanceCache =
     createAuthProtectedFn
       (\<lambda>ctx.
          andThen (getBalanceRedisKey ctx)
            (\<lambda>redisKey s. (Inr (), s\<lparr>redis := (redis s)(redisKey := None)\<rparr>)))"

definition getBalance :: "njord_env \<Rightarrow> AuthContext \<Rightarrow> int nio" where
  "getBalance env =
     createAuthProtectedFn
       (\<lambda>ctx.
          andThen (getBalanceRedisKey ctx)
            (\<lambda>redisKey s.
               case redis s redisKey of
                 Some cachedBalance \<Rightarrow> (Inr cachedBalance, s)
               | None \<Rightarrow>
                   (case andThen (getFreshBalance env ctx)
                           (\<lambda>freshBalance.
                              andThen (updateBalanceCache freshBalance ctx)
                                (\<lambda>_ s'. (Inr freshBalance, s'))) s of
                      (Inr b, s') \<Rightarrow> (Inr b, s')
                    | (Inl originalError, s') \<Rightarrow>
                        if originalError = BrokenCircuitError then (Inr 0, s')
                        else (Inl originalError, s'))))"

text \<open>
  The cache updates after a transfer are not awaited one by one and their failures are
  dropped (\<open>Promise.allSettled\<close>).
\<close>

definition cacheBalanceChange :: "BalanceChange \<Rightarrow> njord_state \<Rightarrow> njord_state" where
  "cacheBalanceChange balanceUpdate s =
     snd (updateBalanceCache (newBalance balanceUpdate)
            \<lparr>userId = accountUserId balanceUpdate, isTeamMember = False\<rparr> s)"

definition transferCores ::
  "njord_env \<Rightarrow> UserTransaction \<Rightarrow> AuthContext \<Rightarrow> TransferResponse nio" where
  "transferCores env transaction =
     createAuthProtectedFn
       (\<lambda>ctx s.
          if \<not> isTeamMember ctx \<and> isProd env
          then (Inl (ForbiddenError ''Not allowed for you yet''), s)
          else
            execute env
              (\<lambda>s. if txId transaction = [] then (Inl (PlainError ''No transaction id''), s)
                    else if \<not> truthyString (senderId transaction)
                    then (Inl (PlainError ''No sender id''), s)
                    else
                      (let request =
                             \<lparr>idempotencyKey = txId transaction,
                              sender = stringOf (senderId transaction),
                              receiver = receiverId transaction,
                              amount = txValue transaction\<rparr>;
                           s1 = s\<lparr>transfers := transfers s @ [request]\<rparr>
                       in case njordTransfer env request of
                            Inl e \<Rightarrow> (Inl e, s1)
                          | Inr result \<Rightarrow>
                              (Inr result,
                               cacheBalanceChange (receiverBalance result)
                                 (cacheBalanceChange (senderBalance result) s1))))
              s)"

section \<open>StoreKit subscriptions\<close>

text \<open>
  The subscription flags of a user: the two keys the StoreKit update treats specially and
  the remaining keys (cycle, subscription id, provider, ...) as an open map. A key that is
  \<open>undefined\<close> is absent.
\<close>

datatype UserSubscriptionStatus = Active | Cancelled | Expired

record UserSubscriptionFlags =
  appAccountToken :: "string option"
  subscriptionStatus :: "UserSubscriptionStatus option"
  otherFlags :: "string \<rightharpoonup> string"

text \<open>
  The value written to the column \<open>subscriptionFlags\<close> is either an object, which
  replaces the stored flags, or the statement built by \<open>updateSubscriptionFlags\<close>.
\<close>

datatype flags_write = SetFlags UserSubscriptionFlags | MergeFlags UserSubscriptionFlags

text \<open>
  Modelled from the spec: \<open>updateSubscriptionFlags\<close> is imported from \<open>common\<close> and is
  not among the sources. Its statement merges the given flags into the stored ones: a key
  that is given replaces the stored key, every other stored key stays.
\<close>

definition updateSubscriptionFlags :: "UserSubscriptionFlags \<Rightarrow> flags_write" where
  "updateSubscriptionFlags update = MergeFlags update"

definition writeFlags :: "flags_write \<Rightarrow> UserSubscriptionFlags \<Rightarrow> UserSubscriptionFlags" where
  "writeFlags w stored =
     (case w of
        SetFlags f \<Rightarrow> f
      | MergeFlags u \<Rightarrow>
          \<lparr>appAccountToken =
             (case appAccountToken u of None \<Rightarrow> appAccountToken stored | Some v \<Rightarrow> Some v),
           subscriptionStatus =
             (case subscriptionStatus u of
                None \<Rightarrow> subscriptionStatus stored
              | Some v \<Rightarrow> Some v),
           otherFlags = otherFlags stored ++ otherFlags u\<rparr>)"

text \<open>The user table, as far as this update goes: the subscription flags of each user id.\<close>

type_synonym user_table = "string \<rightharpoonup> UserSubscriptionFlags"

definition userRepositoryUpdate :: "string \<Rightarrow> flags_write \<Rightarrow> user_table \<Rightarrow> user_table" where
  "userRepositoryUpdate uid w users =
     (case users uid of
        None \<Rightarrow> users
      | Some stored \<Rightarrow> users(uid \<mapsto> writeFlags w stored))"

definition updateStoreKitUserSubscription ::
  "string \<Rightarrow> UserSubscriptionFlags option \<Rightarrow> UserSubscriptionStatus option \<Rightarrow>
   user_table \<Rightarrow> user_table" where
  "updateStoreKitUserSubscription uid data st users =
     (case data of
        None \<Rightarrow> users
      | Some dt \<Rightarrow>
          (let clone = (if truthyString (appAccountToken dt)
                        then dt\<lparr>appAccountToken := None\<rparr> else dt);
               subscriptionFlags =
                 (if st = Some Expired
                  then SetFlags \<lparr>appAccountToken = appAccountToken dt,
                                 subscriptionStatus = st, otherFlags = Map.empty\<rparr>
                  else updateSubscriptionFlags (clone\<lparr>subscriptionStatus := st\<rparr>))
           in userRepositoryUpdate uid subscriptionFlags users))"

section \<open>Sample inputs\<close>

text \<open>
  A coding of the statuses, a purchase of cores by user \<open>u1\<close> under the provider
  transaction id \<open>T1\<close>, tables without a row and with one row for it, a ledger whose
  breaker is open, and a user table with one subscriber: the inputs at which the theorems
  below are instantiated.
\<close>

definition sampleCode :: "UserTransactionStatus \<Rightarrow> int" where
  "sampleCode st =
     (case st of Success \<Rightarrow> 0 | Created \<Rightarrow> 201 | Processing \<Rightarrow> 202
      | ErrorRecoverable \<Rightarrow> 501 | Error \<Rightarrow> 500)"

definition sampleDelivery :: "EventName \<Rightarrow> int \<Rightarrow> bool \<Rightarrow> delivery" where
  "sampleDelivery name cores ok =
     \<lparr>event =
        \<lparr>eventType = name, coreTransaction = True,
         transactionData =
           \<lparr>dataId = ''T1'', dataUpdatedAt = 100, customUserId = ''u1'', itemCores = cores\<rparr>,
         dataStatus = ''draft'', paymentErrorCode = Some ''declined''\<rparr>,
      clock = 50, purchaseOk = ok\<rparr>"

definition sampleUpdate :: "int \<Rightarrow> timestamp \<Rightarrow> timestamp \<Rightarrow> delivery" where
  "sampleUpdate cores stamp now =
     \<lparr>event =
        \<lparr>eventType = TransactionUpdated, coreTransaction = True,
         transactionData =
           \<lparr>dataId = ''T1'', dataUpdatedAt = stamp, customUserId = ''u1'', itemCores = cores\<rparr>,
         dataStatus = ''draft'', paymentErrorCode = None\<rparr>,
      clock = now, purchaseOk = True\<rparr>"

definition emptyState :: webhook_state where
  "emptyState = \<lparr>rows = [], purchases = [], logs = []\<rparr>"

definition sampleRow :: "UserTransactionStatus \<Rightarrow> int \<Rightarrow> timestamp \<Rightarrow> UserTransaction" where
  "sampleRow st cores t =
     \<lparr>txId = ''0'', processor = Paddle, receiverId = ''u1'', senderId = None,
      productId = None, status = Some st, txValue = cores, fee = 0,
      flags = \<lparr>providerId = Some ''T1'', error = None\<rparr>, createdAt = t, updatedAt = t\<rparr>"

definition sampleState :: "UserTransactionStatus \<Rightarrow> int \<Rightarrow> timestamp \<Rightarrow> webhook_state" where
  "sampleState st cores t = \<lparr>rows = [sampleRow st cores t], purchases = [], logs = []\<rparr>"

definition openEnv :: njord_env where
  "openEnv =
     \<lparr>circuitOpen = True, isProd = False,
      njordGetBalance = (\<lambda>_. Inr 7),
      njordTransfer = (\<lambda>_. Inl (LedgerError ''unavailable''))\<rparr>"

definition sampleContext :: AuthContext where
  "sampleContext = \<lparr>userId = Some ''u1'', isTeamMember = True\<rparr>"

definition sampleAward :: UserTransaction where
  "sampleAward =
     \<lparr>txId = ''a1'', processor = Njord, receiverId = ''u2'', senderId = Some ''u1'',
      productId = Some ''p1'', status = Some Success, txValue = 10, fee = 0,
      flags = \<lparr>providerId = None, error = None\<rparr>, createdAt = 1, updatedAt = 1\<rparr>"

definition coldCache :: njord_state where
  "coldCache = \<lparr>redis = Map.empty, transfers = []\<rparr>"

definition warmCache :: njord_state where
  "warmCache = \<lparr>redis = [''balance:u1'' \<mapsto> 42], transfers = []\<rparr>"

definition sampleFlags :: "string option \<Rightarrow> UserSubscriptionFlags" where
  "sampleFlags token =
     \<lparr>appAccountToken = token, subscriptionStatus = Some Active,
      otherFlags = [''cycle'' \<mapsto> ''monthly'']\<rparr>"

definition sampleUsers :: user_table where
  "sampleUsers = [''u1'' \<mapsto> sampleFlags (Some ''A'')]"

section \<open>Lookup and update lemmas\<close>

lemmas handler_defs =
  processTransactionCompleted_def processTransactionCreated_def processTransactionReady_def
  processTransactionPaymentFailed_def processTransactionUpdated_def
  updateUserTransaction_def purchaseCores_def conTransaction_def
  checkTransactionStatusValid_def getUpdatedStatus_def

lemmas sample_defs =
  sampleCode_def sampleDelivery_def emptyState_def sampleRow_def sampleState_def
  getTransactionForProviderId_def repoUpdate_def freshId_def truthyStatus_def
  logMessage_def paymentFailedMessage_def sampleUpdate_def

lemmas njord_defs =
  getBalance_def getFreshBalance_def updateBalanceCache_def getBalanceRedisKey_def
  transferCores_def createAuthProtectedFn_def execute_def andThen_def
  truthyString_def stringOf_def

lemmas njord_sample_defs =
  openEnv_def sampleContext_def sampleAward_def coldCache_def warmCache_def

lemmas storekit_defs =
  updateStoreKitUserSubscription_def userRepositoryUpdate_def writeFlags_def
  updateSubscriptionFlags_def truthyString_def sampleFlags_def sampleUsers_def


lemma find_append_None:
  "find P xs = None \<Longrightarrow> find P (xs @ ys) = find P ys"
  by (induction xs) (auto split: if_splits)

lemma getTransactionForProviderId_append:
  "getTransactionForProviderId rs pid = None \<Longrightarrow>
   getTransactionForProviderId (rs @ [n]) pid =
     (if processor n = Paddle \<and> providerId (flags n) = Some pid then Some n else None)"
  unfolding getTransactionForProviderId_def by (simp add: find_append_None)

lemma getTransactionForProviderId_repoUpdate:
  assumes "\<And>r. processor (f r) = processor r"
    and "\<And>r. providerId (flags (f r)) = providerId (flags r)"
  shows "getTransactionForProviderId (repoUpdate now i f rs) pid =
     map_option (\<lambda>t. if txId t = i then (f t)\<lparr>updatedAt := now\<rparr> else t)
       (getTransactionForProviderId rs pid)"
  unfolding getTransactionForProviderId_def repoUpdate_def
  by (induction rs) (auto simp: assms)

lemma foldr_max_ge: "r \<in> set rs \<Longrightarrow> g r \<le> foldr max (map g rs) (0::nat)"
  by (induction rs) auto

lemma freshId_fresh: "r \<in> set rs \<Longrightarrow> txId r \<noteq> freshId rs"
proof
  assume r: "r \<in> set rs" and eq: "txId r = freshId rs"
  have "length (txId r) \<le> foldr max (map (\<lambda>r. length (txId r)) rs) 0"
    using r by (rule foldr_max_ge)
  moreover have "length (freshId rs) = Suc (foldr max (map (\<lambda>r. length (txId r)) rs) 0)"
    by (simp add: freshId_def)
  ultimately show False using eq by simp
qed

lemma repoUpdate_append:
  "repoUpdate now i f (xs @ ys) = repoUpdate now i f xs @ repoUpdate now i f ys"
  by (simp add: repoUpdate_def)

lemma repoUpdate_absent:
  "(\<And>r. r \<in> set rs \<Longrightarrow> txId r \<noteq> i) \<Longrightarrow> repoUpdate now i f rs = rs"
  unfolding repoUpdate_def by (induction rs) auto

lemma repoUpdate_fresh: "repoUpdate now (freshId rs) f rs = rs"
  by (rule repoUpdate_absent) (rule freshId_fresh)

lemma repoUpdate_fresh_append:
  "repoUpdate now (freshId rs) f (rs @ [n]) =
     rs @ (if txId n = freshId rs then [(f n)\<lparr>updatedAt := now\<rparr>] else [n])"
  by (simp add: repoUpdate_append repoUpdate_fresh) (simp add: repoUpdate_def)

lemma map_status_repoUpdate:
  "(\<And>r. status (f r) = status r) \<Longrightarrow> map status (repoUpdate now i f rs) = map status rs"
  by (simp add: repoUpdate_def)

section \<open>Completed events\<close>

text \<open>
  C1, as stated, fails: a second delivery of Completed reaches \<open>purchaseCores\<close> again.
  The row of \<open>T1\<close> is Success with value 500 after the first delivery, and after the
  second delivery of the same event two calls have been made, not at most one.
\<close>

theorem completed_twice_counterexample:
  "map status
     (rows (paddle sampleCode (sampleDelivery TransactionCompleted 500 True)
              (sampleState Created 500 50))) = [Some Success] \<and>
   map txValue
     (rows (paddle sampleCode (sampleDelivery TransactionCompleted 500 True)
              (sampleState Created 500 50))) = [500] \<and>
   \<not> length (purchases
        (paddle sampleCode (sampleDelivery TransactionCompleted 500 True)
           (paddle sampleCode (sampleDelivery TransactionCompleted 500 True)
              (sampleState Created 500 50)))) \<le> 1"
  by (simp add: paddle_def handler_defs sample_defs Let_def)

text \<open>
  C1, amended. When a Completed event of a cores purchase has been processed without
  error, a second delivery of the same event that the ledger accepts is not skipped: it
  succeeds and calls \<open>purchaseCores\<close> once more, with a transaction of the same id
  (the idempotency key) as the first call. Each of the two deliveries makes exactly one
  call.
\<close>

theorem completed_redelivery:
  assumes "coreTransaction (event d)"
    and "processTransactionCompleted code d s = (Inr (), s')"
    and "event d' = event d"
    and "purchaseOk d'"
  shows "fst (processTransactionCompleted code d' s') = Inr () \<and>
         purchases s' = purchases s @ [last (purchases s')] \<and>
         purchases (snd (processTransactionCompleted code d' s')) =
           purchases s' @ [last (purchases (snd (processTransactionCompleted code d' s')))] \<and>
         txId (last (purchases (snd (processTransactionCompleted code d' s')))) =
           txId (last (purchases s'))"
proof (cases "getTransactionForProviderId (rows s) (dataId (transactionData (event d)))")
  case None
  then show ?thesis using assms
    by (auto simp add: handler_defs Let_def getTransactionForProviderId_append
         repoUpdate_fresh_append split: if_splits)
next
  case (Some t)
  then show ?thesis using assms
    by (auto simp add: handler_defs Let_def getTransactionForProviderId_repoUpdate
         split: if_splits)
qed

theorem completed_redelivery_witness:
  "coreTransaction (event (sampleDelivery TransactionCompleted 500 True)) \<and>
   fst (processTransactionCompleted sampleCode (sampleDelivery TransactionCompleted 500 True)
          (sampleState Created 500 50)) = Inr () \<and>
   purchaseOk (sampleDelivery TransactionCompleted 500 True) \<and>
   fst (processTransactionCompleted sampleCode (sampleDelivery TransactionCompleted 500 True)
     (snd (processTransactionCompleted sampleCode
             (sampleDelivery TransactionCompleted 500 True)
             (sampleState Created 500 50)))) = Inr () \<and>
   map txId (purchases
     (snd (processTransactionCompleted sampleCode (sampleDelivery TransactionCompleted 500 True)
        (snd (processTransactionCompleted sampleCode
                (sampleDelivery TransactionCompleted 500 True)
                (sampleState Created 500 50)))))) = [''0'', ''0'']"
  using completed_redelivery
          [where d = "sampleDelivery TransactionCompleted 500 True" and code = sampleCode and
             s = "sampleState Created 500 50" and
             s' = "snd (processTransactionCompleted sampleCode
                          (sampleDelivery TransactionCompleted 500 True)
                          (sampleState Created 500 50))" and
             d' = "sampleDelivery TransactionCompleted 500 True"]
  by (simp add: handler_defs sample_defs Let_def)

text \<open>
  C2. When a Completed event of a cores purchase arrives for a transaction that is already
  Success and whose stored value differs from the value the event carries, processing
  throws and nothing is written: the state, and with it the stored value and status, is
  the one before the delivery, and no purchase is made. The error is the value check's,
  unless the receiver check before it has already failed.
\<close>

theorem completed_value_changed:
  assumes "coreTransaction (event d)"
    and "getTransactionForProviderId (rows s) (dataId (transactionData (event d))) = Some t"
    and "status t = Some Success"
    and "txValue t \<noteq> itemCores (transactionData (event d))"
  shows "processTransactionCompleted code d s =
           (Inl (if receiverId t \<noteq> customUserId (transactionData (event d))
                 then ReceiverMismatch else ValueChanged), s)"
  using assms by (simp add: handler_defs Let_def)

theorem completed_value_changed_witness:
  "getTransactionForProviderId (rows (sampleState Success 500 50)) ''T1'' =
     Some (sampleRow Success 500 50) \<and>
   processTransactionCompleted sampleCode (sampleDelivery TransactionCompleted 700 True)
       (sampleState Success 500 50) =
     (Inl ValueChanged, sampleState Success 500 50)"
  using completed_value_changed
          [where d = "sampleDelivery TransactionCompleted 700 True" and
                 s = "sampleState Success 500 50" and
                 t = "sampleRow Success 500 50" and
                 code = sampleCode]
  by (simp add: sample_defs)

text \<open>
  C3. A Completed event of a cores purchase that passes the receiver and value checks
  forces the status Success whatever the status was, also when there was no row. The
  write and the call of \<open>purchaseCores\<close> run in one database transaction: the call is
  made in either case, and when it fails the delivery fails with it and the table is the
  one before the delivery.
\<close>

theorem completed_atomic:
  assumes "coreTransaction (event d)"
    and "case getTransactionForProviderId (rows s) (dataId (transactionData (event d))) of
           None \<Rightarrow> True
         | Some t \<Rightarrow> receiverId t = customUserId (transactionData (event d)) \<and>
                     (status t \<noteq> Some Success \<or> txValue t = itemCores (transactionData (event d)))"
  shows "(if purchaseOk d
          then fst (processTransactionCompleted code d s) = Inr () \<and>
               (\<exists>t'. getTransactionForProviderId
                        (rows (snd (processTransactionCompleted code d s)))
                        (dataId (transactionData (event d))) = Some t' \<and>
                     status t' = Some Success \<and>
                     txValue t' = itemCores (transactionData (event d)))
          else fst (processTransactionCompleted code d s) = Inl LedgerFailure \<and>
               rows (snd (processTransactionCompleted code d s)) = rows s) \<and>
         length (purchases (snd (processTransactionCompleted code d s))) =
           Suc (length (purchases s))"
proof (cases "getTransactionForProviderId (rows s) (dataId (transactionData (event d)))")
  case None
  then show ?thesis using assms
    by (simp add: handler_defs Let_def getTransactionForProviderId_append)
next
  case (Some t)
  then show ?thesis using assms
    by (auto simp add: handler_defs Let_def getTransactionForProviderId_repoUpdate)
qed

theorem completed_atomic_witness:
  "map status
     (rows (snd (processTransactionCompleted sampleCode
                   (sampleDelivery TransactionCompleted 500 True)
                   (sampleState ErrorRecoverable 500 50)))) = [Some Success] \<and>
   fst (processTransactionCompleted sampleCode (sampleDelivery TransactionCompleted 500 False)
          (sampleState Processing 500 50)) = Inl LedgerFailure \<and>
   rows (snd (processTransactionCompleted sampleCode
                (sampleDelivery TransactionCompleted 500 False)
                (sampleState Processing 500 50))) = rows (sampleState Processing 500 50)"
  using completed_atomic
          [where d = "sampleDelivery TransactionCompleted 500 True" and
                 s = "sampleState ErrorRecoverable 500 50" and
                 code = sampleCode]
        completed_atomic
          [where d = "sampleDelivery TransactionCompleted 500 False" and
                 s = "sampleState Processing 500 50" and
                 code = sampleCode]
  by (simp add: handler_defs sample_defs Let_def)

section \<open>Created events\<close>

text \<open>
  C5. Processing a Created event of a cores purchase fails with a hard error and leaves
  the table as it is whenever a transaction already exists for the provider transaction
  id; otherwise it succeeds and inserts one new row, with status Created, for that id.
\<close>

theorem processTransactionCreated_spec:
  "coreTransaction (event d) \<Longrightarrow>
   (getTransactionForProviderId (rows s) (dataId (transactionData (event d))) \<noteq> None \<longrightarrow>
      processTransactionCreated code d s = (Inl AlreadyExists, s)) \<and>
   (getTransactionForProviderId (rows s) (dataId (transactionData (event d))) = None \<longrightarrow>
      (\<exists>t. processTransactionCreated code d s = (Inr (), s\<lparr>rows := rows s @ [t]\<rparr>) \<and>
           status t = Some Created \<and>
           providerId (flags t) = Some (dataId (transactionData (event d))) \<and>
           receiverId t = customUserId (transactionData (event d)) \<and>
           txValue t = itemCores (transactionData (event d))))"
  by (force simp add: processTransactionCreated_def updateUserTransaction_def Let_def)

theorem processTransactionCreated_spec_witness:
  "coreTransaction (event (sampleDelivery TransactionCreated 500 True)) \<and>
   processTransactionCreated sampleCode (sampleDelivery TransactionCreated 500 True)
       (sampleState Created 500 50) =
     (Inl AlreadyExists, sampleState Created 500 50) \<and>
   (\<exists>t. processTransactionCreated sampleCode (sampleDelivery TransactionCreated 500 True)
          emptyState =
          (Inr (), emptyState\<lparr>rows := rows emptyState @ [t]\<rparr>) \<and>
        status t = Some Created)"
  using processTransactionCreated_spec
          [where d = "sampleDelivery TransactionCreated 500 True" and
                 s = "sampleState Created 500 50" and
                 code = sampleCode]
        processTransactionCreated_spec
          [where d = "sampleDelivery TransactionCreated 500 True" and
                 s = emptyState and
                 code = sampleCode]
  by (auto simp add: handler_defs sample_defs Let_def)

section \<open>Ready events\<close>

text \<open>
  C7. Processing a Ready event of a cores purchase sets the status Processing only when
  there is no row yet (a fresh row is inserted) or when the row found has status Created
  (and the receiver check passes; otherwise the delivery fails and nothing is written).
  For any other status of the row, Success among them, the event is rejected: a warning
  is logged and nothing else changes.
\<close>

theorem processTransactionReady_spec:
  assumes "coreTransaction (event d)"
  shows "case getTransactionForProviderId (rows s) (dataId (transactionData (event d))) of
      None \<Rightarrow>
        (\<exists>t. processTransactionReady code d s = (Inr (), s\<lparr>rows := rows s @ [t]\<rparr>) \<and>
             status t = Some Processing \<and>
             providerId (flags t) = Some (dataId (transactionData (event d))))
    | Some t \<Rightarrow>
        if status t = Some Created
        then if receiverId t = customUserId (transactionData (event d))
             then fst (processTransactionReady code d s) = Inr () \<and>
                  getTransactionForProviderId (rows (snd (processTransactionReady code d s)))
                      (dataId (transactionData (event d))) =
                    Some (t\<lparr>txValue := itemCores (transactionData (event d)),
                            status := Some Processing, updatedAt := clock d\<rparr>)
             else processTransactionReady code d s = (Inl ReceiverMismatch, s)
        else processTransactionReady code d s =
               (Inr (), logMessage ''Transaction with invalid status'' s)"
proof (cases "getTransactionForProviderId (rows s) (dataId (transactionData (event d)))")
  case None
  then show ?thesis using assms
    by (force simp add: handler_defs Let_def)
next
  case (Some t)
  then show ?thesis using assms
    by (auto simp add: handler_defs Let_def getTransactionForProviderId_repoUpdate)
qed

theorem processTransactionReady_spec_witness:
  "(\<exists>t. processTransactionReady sampleCode (sampleDelivery TransactionReady 500 True)
          emptyState = (Inr (), emptyState\<lparr>rows := rows emptyState @ [t]\<rparr>) \<and>
        status t = Some Processing) \<and>
   getTransactionForProviderId
     (rows (snd (processTransactionReady sampleCode (sampleDelivery TransactionReady 500 True)
                   (sampleState Created 500 50)))) ''T1'' =
     Some (sampleRow Processing 500 50) \<and>
   processTransactionReady sampleCode (sampleDelivery TransactionReady 500 True)
       (sampleState Success 500 50) =
     (Inr (), logMessage ''Transaction with invalid status'' (sampleState Success 500 50))"
  using processTransactionReady_spec
          [where d = "sampleDelivery TransactionReady 500 True" and
                 s = emptyState and
                 code = sampleCode]
        processTransactionReady_spec
          [where d = "sampleDelivery TransactionReady 500 True" and
                 s = "sampleState Created 500 50" and
                 code = sampleCode]
        processTransactionReady_spec
          [where d = "sampleDelivery TransactionReady 500 True" and
                 s = "sampleState Success 500 50" and
                 code = sampleCode]
  by (auto simp add: handler_defs sample_defs Let_def)

section \<open>PaymentFailed events\<close>

text \<open>
  C8. Processing a PaymentFailed event of a cores purchase, for a row that exists,
  requires the row's status to be Created or Processing. Otherwise the event is dropped:
  a warning is logged and nothing else changes. When the transition is valid no warning
  is logged and the status becomes ErrorRecoverable if the payment's error code is
  \<open>declined\<close>, and Error for any other error code.
\<close>

theorem processTransactionPaymentFailed_spec:
  assumes "coreTransaction (event d)"
    and "getTransactionForProviderId (rows s) (dataId (transactionData (event d))) = Some t"
  shows "if status t = Some Created \<or> status t = Some Processing
         then fst (processTransactionPaymentFailed d s) = Inr () \<and>
              logs (snd (processTransactionPaymentFailed d s)) = logs s \<and>
              (\<exists>t'. getTransactionForProviderId
                       (rows (snd (processTransactionPaymentFailed d s)))
                       (dataId (transactionData (event d))) = Some t' \<and>
                    status t' =
                      Some (if paymentErrorCode (event d) = Some ''declined''
                            then ErrorRecoverable else Error))
         else processTransactionPaymentFailed d s =
                (Inr (), logMessage ''Transaction with invalid status'' s)"
  using assms
  by (auto simp add: handler_defs Let_def getTransactionForProviderId_repoUpdate)

theorem processTransactionPaymentFailed_spec_witness:
  "map status
     (rows (snd (processTransactionPaymentFailed
                   (sampleDelivery TransactionPaymentFailed 500 True)
                   (sampleState Created 500 50)))) = [Some ErrorRecoverable] \<and>
   processTransactionPaymentFailed (sampleDelivery TransactionPaymentFailed 500 True)
       (sampleState Success 500 50) =
     (Inr (), logMessage ''Transaction with invalid status'' (sampleState Success 500 50))"
  using processTransactionPaymentFailed_spec
          [where d = "sampleDelivery TransactionPaymentFailed 500 True" and
                 s = "sampleState Created 500 50" and
                 t = "sampleRow Created 500 50"]
        processTransactionPaymentFailed_spec
          [where d = "sampleDelivery TransactionPaymentFailed 500 True" and
                 s = "sampleState Success 500 50" and
                 t = "sampleRow Success 500 50"]
  by (auto simp add: handler_defs sample_defs Let_def)

section \<open>Updated events\<close>

text \<open>
  C6. Processing an Updated event of a cores purchase drops the event, with a warning and
  no write, whenever the row's \<open>updatedAt\<close> is later than the event's. When a row exists
  and the event is not stale, every row keeps its status, whatever else happens. Only
  when no row exists is a status inferred from the provider's sub-status: \<open>draft\<close> inserts
  a row with status Created and \<open>ready\<close> one with status Processing (the codes of these
  two statuses being non-zero), and anything else is skipped.
\<close>

theorem processTransactionUpdated_spec:
  assumes "coreTransaction (event d)"
  shows "case getTransactionForProviderId (rows s) (dataId (transactionData (event d))) of
      Some t \<Rightarrow>
        if updatedAt t > dataUpdatedAt (transactionData (event d))
        then processTransactionUpdated code d s =
               (Inr (), logMessage ''Transaction already updated'' s)
        else map status (rows (snd (processTransactionUpdated code d s))) = map status (rows s) \<and>
             (\<exists>t'. getTransactionForProviderId
                      (rows (snd (processTransactionUpdated code d s)))
                      (dataId (transactionData (event d))) = Some t' \<and>
                   status t' = status t)
    | None \<Rightarrow>
        if dataStatus (event d) = ''draft'' \<and> code Created \<noteq> 0
        then \<exists>t. processTransactionUpdated code d s = (Inr (), s\<lparr>rows := rows s @ [t]\<rparr>) \<and>
                 status t = Some Created
        else if dataStatus (event d) = ''ready'' \<and> code Processing \<noteq> 0
        then \<exists>t. processTransactionUpdated code d s = (Inr (), s\<lparr>rows := rows s @ [t]\<rparr>) \<and>
                 status t = Some Processing
        else processTransactionUpdated code d s =
               (Inr (), logMessage ''Transaction update skipped'' s)"
proof (cases "getTransactionForProviderId (rows s) (dataId (transactionData (event d)))")
  case None
  then show ?thesis using assms
    by (force simp add: handler_defs Let_def truthyStatus_def)
next
  case (Some t)
  from Some show ?thesis using assms
    by (auto simp add: handler_defs Let_def getTransactionForProviderId_repoUpdate map_status_repoUpdate
         logMessage_def)
qed

theorem processTransactionUpdated_spec_witness:
  "processTransactionUpdated sampleCode (sampleDelivery TransactionUpdated 700 True)
       (sampleState Created 500 200) =
     (Inr (), logMessage ''Transaction already updated'' (sampleState Created 500 200)) \<and>
   map (\<lambda>t. (status t, txValue t))
     (rows (snd (processTransactionUpdated sampleCode
                   (sampleDelivery TransactionUpdated 700 True)
                   (sampleState Processing 500 50)))) = [(Some Processing, 700)] \<and>
   (\<exists>t. processTransactionUpdated sampleCode (sampleDelivery TransactionUpdated 700 True)
          emptyState = (Inr (), emptyState\<lparr>rows := rows emptyState @ [t]\<rparr>) \<and>
        status t = Some Created)"
  using processTransactionUpdated_spec
          [where d = "sampleDelivery TransactionUpdated 700 True" and
                 s = "sampleState Created 500 200" and
                 code = sampleCode]
        processTransactionUpdated_spec
          [where d = "sampleDelivery TransactionUpdated 700 True" and
                 s = "sampleState Processing 500 50" and
                 code = sampleCode]
        processTransactionUpdated_spec
          [where d = "sampleDelivery TransactionUpdated 700 True" and
                 s = emptyState and
                 code = sampleCode]
  by (auto simp add: handler_defs sample_defs Let_def)

section \<open>Redelivery\<close>

lemma rows_logMessage [simp]: "rows (logMessage m s) = rows s"
  by (simp add: logMessage_def)









lemma unstamped_stamp [simp]: "unstamped (t\<lparr>updatedAt := n\<rparr>) = unstamped t"
  by (simp add: unstamped_def)






































section \<open>The ledger client under an open breaker\<close>

text \<open>
  C9, as stated, fails: with the breaker open \<open>getBalance\<close> does not always return a
  zero balance. A balance cached for the user is returned before the ledger is asked: here
  the cached 42.
\<close>

theorem getBalance_open_counterexample:
  "circuitOpen openEnv \<and>
   fst (getBalance openEnv sampleContext warmCache) = Inr 42 \<and>
   \<not> fst (getBalance openEnv sampleContext warmCache) = Inr 0"
  by (simp add: njord_defs njord_sample_defs)

text \<open>
  C9, amended. When the breaker is open, \<open>getBalance\<close> for an authenticated user does
  not fail: it returns the balance cached for the user when there is one and a zero
  balance otherwise, and leaves the cache as it is. \<open>transferCores\<close> for an
  authenticated user never returns a result: it fails with the breaker's error, or with
  the guard's \<open>ForbiddenError\<close> when the caller is refused before the breaker is
  reached, and no transfer reaches the ledger.
\<close>

theorem open_circuit_spec:
  assumes "circuitOpen env" and "truthyString (userId ctx)"
  shows "getBalance env ctx s =
           (Inr (case redis s (''balance:'' @ stringOf (userId ctx)) of
                   Some cachedBalance \<Rightarrow> cachedBalance
                 | None \<Rightarrow> 0), s) \<and>
         transferCores env transaction ctx s =
           (Inl (if \<not> isTeamMember ctx \<and> isProd env
                 then ForbiddenError ''Not allowed for you yet''
                 else BrokenCircuitError), s)"
  using assms
  by (simp add: getBalance_def getFreshBalance_def getBalanceRedisKey_def transferCores_def
        createAuthProtectedFn_def execute_def andThen_def split: option.splits)

theorem open_circuit_spec_witness:
  "circuitOpen openEnv \<and> truthyString (userId sampleContext) \<and>
   getBalance openEnv sampleContext coldCache = (Inr 0, coldCache) \<and>
   getBalance openEnv sampleContext warmCache = (Inr 42, warmCache) \<and>
   transferCores openEnv sampleAward sampleContext coldCache = (Inl BrokenCircuitError, coldCache)"
  using open_circuit_spec [where env = openEnv and ctx = sampleContext and s = coldCache and
          transaction = sampleAward]
        open_circuit_spec [where env = openEnv and ctx = sampleContext and s = warmCache and
          transaction = sampleAward]
  by (simp add: njord_sample_defs truthyString_def stringOf_def)

section \<open>The StoreKit subscription update\<close>

text \<open>
  C10, as stated, fails: when the status is Expired the stored token is replaced by the
  caller's. The user's stored token is \<open>A\<close>, the data carries \<open>B\<close>, and after the
  update the stored token is \<open>B\<close>.
\<close>

theorem storekit_expired_counterexample:
  "map_option appAccountToken (sampleUsers ''u1'') = Some (Some ''A'') \<and>
   \<not> map_option appAccountToken
        (updateStoreKitUserSubscription ''u1'' (Some (sampleFlags (Some ''B''))) (Some Expired)
           sampleUsers ''u1'') =
      map_option appAccountToken (sampleUsers ''u1'')"
  by (simp add: storekit_defs)

text \<open>
  C10, amended. Called without data, \<open>updateStoreKitUserSubscription\<close> performs no
  update at all. When the status is Expired it replaces the user's subscription flags by
  exactly the status and the incoming \<open>appAccountToken\<close>, so the stored token becomes the
  incoming one. In every other case a non-empty \<open>appAccountToken\<close> is deleted from the
  payload before the flags are merged, and the stored token is left untouched (as it is
  when the data carries no token). No other user is touched.
\<close>

theorem updateStoreKitUserSubscription_spec:
  "updateStoreKitUserSubscription uid None st users = users \<and>
   (users uid = Some stored \<longrightarrow>
      updateStoreKitUserSubscription uid (Some dt) (Some Expired) users uid =
        Some \<lparr>appAccountToken = appAccountToken dt, subscriptionStatus = Some Expired,
              otherFlags = Map.empty\<rparr>) \<and>
   (users uid = Some stored \<and> st \<noteq> Some Expired \<and> appAccountToken dt \<noteq> Some [] \<longrightarrow>
      map_option appAccountToken (updateStoreKitUserSubscription uid (Some dt) st users uid) =
        Some (appAccountToken stored)) \<and>
   (other \<noteq> uid \<longrightarrow>
      updateStoreKitUserSubscription uid (Some dt) st users other = users other)"
  by (auto simp add: updateStoreKitUserSubscription_def userRepositoryUpdate_def writeFlags_def
        updateSubscriptionFlags_def truthyString_def Let_def split: option.splits)

theorem updateStoreKitUserSubscription_spec_witness:
  "updateStoreKitUserSubscription ''u1'' None (Some Expired) sampleUsers = sampleUsers \<and>
   updateStoreKitUserSubscription ''u1'' (Some (sampleFlags (Some ''B''))) (Some Expired)
       sampleUsers ''u1'' =
     Some \<lparr>appAccountToken = Some ''B'', subscriptionStatus = Some Expired,
           otherFlags = Map.empty\<rparr> \<and>
   map_option appAccountToken
     (updateStoreKitUserSubscription ''u1'' (Some (sampleFlags (Some ''B''))) (Some Cancelled)
        sampleUsers ''u1'') = Some (Some ''A'') \<and>
   updateStoreKitUserSubscription ''u1'' (Some (sampleFlags (Some ''B''))) (Some Cancelled)
       sampleUsers ''u2'' = sampleUsers ''u2''"
  using updateStoreKitUserSubscription_spec
          [where uid = "''u1''" and st = "Some Expired" and users = sampleUsers and
             stored = "sampleFlags (Some ''A'')" and dt = "sampleFlags (Some ''B'')" and
             other = "''u2''"]
        updateStoreKitUserSubscription_spec
          [where uid = "''u1''" and st = "Some Cancelled" and users = sampleUsers and
             stored = "sampleFlags (Some ''A'')" and dt = "sampleFlags (Some ''B'')" and
             other = "''u2''"]
  by (simp add: sampleUsers_def sampleFlags_def)

text \<open>
  The deletion tests the token for truth, so an empty token given by the caller is not
  deleted and is merged over the stored one.
\<close>

lemma empty_token_is_merged:
  "map_option appAccountToken
     (updateStoreKitUserSubscription ''u1'' (Some (sampleFlags (Some []))) (Some Cancelled)
        sampleUsers ''u1'') = Some (Some [])"
  by (simp add: storekit_defs)

end
